theory Spec2Isabelle
  imports Complex_Main "HOL-Library.AList" "HOL-Library.Sublist"
begin

section \<open>Floating-point values\<close>

text \<open>
  The arrays of \<^verbatim>\<open>temporal.py\<close> hold IEEE doubles. A value is modelled as NaN, one of the
  two infinities, or a finite real: the special values and their arithmetic are those of
  IEEE 754, rounding and overflow of finite results are not modelled (finite arithmetic is
  exact), and the sign of zero is not kept (a zero divisor counts as \<open>+0\<close>, which is what an
  integer zero converts to).
\<close>

datatype fl = NaN | NInf | Fin real | PInf

fun fl_neg :: "fl \<Rightarrow> fl" where
  "fl_neg NaN = NaN"
| "fl_neg NInf = PInf"
| "fl_neg (Fin a) = Fin (- a)"
| "fl_neg PInf = NInf"

fun fl_add :: "fl \<Rightarrow> fl \<Rightarrow> fl" where
  "fl_add NaN y = NaN"
| "fl_add x NaN = NaN"
| "fl_add (Fin a) (Fin b) = Fin (a + b)"
| "fl_add (Fin a) y = y"
| "fl_add x (Fin b) = x"
| "fl_add PInf PInf = PInf"
| "fl_add NInf NInf = NInf"
| "fl_add PInf NInf = NaN"
| "fl_add NInf PInf = NaN"

definition fl_sub :: "fl \<Rightarrow> fl \<Rightarrow> fl" where
  "fl_sub x y = fl_add x (fl_neg y)"

text \<open>The sign of a non-NaN value: \<open>-1\<close>, \<open>0\<close> or \<open>1\<close>.\<close>

fun fl_sign :: "fl \<Rightarrow> int" where
  "fl_sign NaN = 0"
| "fl_sign NInf = - 1"
| "fl_sign (Fin a) = (if a < 0 then - 1 else if a = 0 then 0 else 1)"
| "fl_sign PInf = 1"

definition signed_inf :: "int \<Rightarrow> fl" where
  "signed_inf s = (if s = 0 then NaN else if s < 0 then NInf else PInf)"

fun fl_mul :: "fl \<Rightarrow> fl \<Rightarrow> fl" where
  "fl_mul NaN y = NaN"
| "fl_mul x NaN = NaN"
| "fl_mul (Fin a) (Fin b) = Fin (a * b)"
| "fl_mul x y = signed_inf (fl_sign x * fl_sign y)"

fun fl_div :: "fl \<Rightarrow> fl \<Rightarrow> fl" where
  "fl_div NaN y = NaN"
| "fl_div x NaN = NaN"
| "fl_div (Fin a) (Fin b) = (if b = 0 then signed_inf (fl_sign (Fin a)) else Fin (a / b))"
| "fl_div (Fin a) y = Fin 0"
| "fl_div x (Fin b) = signed_inf (fl_sign x * (if b < 0 then - 1 else 1))"
| "fl_div x y = NaN"

fun fl_abs :: "fl \<Rightarrow> fl" where
  "fl_abs NaN = NaN"
| "fl_abs NInf = PInf"
| "fl_abs (Fin a) = Fin \<bar>a\<bar>"
| "fl_abs PInf = PInf"

text \<open>Comparison: every comparison with NaN is false.\<close>

fun fl_lt :: "fl \<Rightarrow> fl \<Rightarrow> bool" where
  "fl_lt NaN y = False"
| "fl_lt x NaN = False"
| "fl_lt (Fin a) (Fin b) = (a < b)"
| "fl_lt NInf NInf = False"
| "fl_lt NInf y = True"
| "fl_lt x NInf = False"
| "fl_lt PInf y = False"
| "fl_lt x PInf = True"

definition isnan :: "fl \<Rightarrow> bool" where
  "isnan x = (x = NaN)"

text \<open>
  \<^verbatim>\<open>np.isnan\<close> applied to a boolean array (as \<^verbatim>\<open>_veos\<close> does): a boolean converts
  to 0.0 or 1.0, neither of which is NaN.
\<close>

definition isnan_bool :: "bool \<Rightarrow> bool" where
  "isnan_bool b = isnan (Fin (if b then 1 else 0))"

text \<open>Truth value of a float used as a condition (\<^verbatim>\<open>np.where\<close>): anything but zero.\<close>

definition truthy :: "fl \<Rightarrow> bool" where
  "truthy x = (x \<noteq> Fin 0)"

definition is_finite :: "fl \<Rightarrow> bool" where
  "is_finite x = (case x of Fin a \<Rightarrow> True | _ \<Rightarrow> False)"

subsection \<open>NaN-skipping reductions of one series\<close>

definition fl_max2 :: "fl \<Rightarrow> fl \<Rightarrow> fl" where
  "fl_max2 a b = (if fl_lt a b then b else a)"

definition fl_min2 :: "fl \<Rightarrow> fl \<Rightarrow> fl" where
  "fl_min2 a b = (if fl_lt b a then b else a)"

text \<open>\<^verbatim>\<open>nanmax\<close>, \<^verbatim>\<open>nanmin\<close>: NaN on a series with no valid entry.\<close>

definition nanmax :: "fl list \<Rightarrow> fl" where
  "nanmax xs = (case filter (\<lambda>x. \<not> isnan x) xs of [] \<Rightarrow> NaN | y # ys \<Rightarrow> fold fl_max2 ys y)"

definition nanmin :: "fl list \<Rightarrow> fl" where
  "nanmin xs = (case filter (\<lambda>x. \<not> isnan x) xs of [] \<Rightarrow> NaN | y # ys \<Rightarrow> fold fl_min2 ys y)"

fun index_of :: "'a \<Rightarrow> 'a list \<Rightarrow> nat" where
  "index_of y [] = 0"
| "index_of y (x # xs) = (if x = y then 0 else Suc (index_of y xs))"

datatype error = ValueError | TypeError | IndexError | KeyError | UnboundLocalError | AttributeError

text \<open>
  \<^verbatim>\<open>nanargmax\<close>, \<^verbatim>\<open>nanargmin\<close>: the first index of the extremum of the valid entries;
  a series with no valid entry raises \<^verbatim>\<open>ValueError\<close> ("All-NaN slice encountered").
\<close>

definition nanargmax :: "fl list \<Rightarrow> error + nat" where
  "nanargmax xs = (if list_all isnan xs then Inl ValueError else Inr (index_of (nanmax xs) xs))"

definition nanargmin :: "fl list \<Rightarrow> error + nat" where
  "nanargmin xs = (if list_all isnan xs then Inl ValueError else Inr (index_of (nanmin xs) xs))"

fun fl_insert :: "fl \<Rightarrow> fl list \<Rightarrow> fl list" where
  "fl_insert x [] = [x]"
| "fl_insert x (y # ys) = (if fl_lt y x then y # fl_insert x ys else x # y # ys)"

definition fl_sort :: "fl list \<Rightarrow> fl list" where
  "fl_sort xs = foldr fl_insert xs []"

text \<open>\<^verbatim>\<open>nanmedian\<close>: the middle valid entry, or the mean of the two middle ones.\<close>

definition nanmedian :: "fl list \<Rightarrow> fl" where
  "nanmedian xs =
     (let v = fl_sort (filter (\<lambda>x. \<not> isnan x) xs); k = length v
      in if k = 0 then NaN
         else if odd k then v ! (k div 2)
         else fl_div (fl_add (v ! (k div 2 - 1)) (v ! (k div 2))) (Fin 2))"

text \<open>Running a fallible function over a list stops at the first error.\<close>

fun mapM :: "('a \<Rightarrow> error + 'b) \<Rightarrow> 'a list \<Rightarrow> error + 'b list" where
  "mapM f [] = Inr []"
| "mapM f (x # xs) =
     (case f x of Inl e \<Rightarrow> Inl e
      | Inr y \<Rightarrow> (case mapM f xs of Inl e \<Rightarrow> Inl e | Inr ys \<Rightarrow> Inr (y # ys)))"

definition bnd :: "error + 'a \<Rightarrow> ('a \<Rightarrow> error + 'b) \<Rightarrow> error + 'b" where
  "bnd m f = (case m of Inl e \<Rightarrow> Inl e | Inr x \<Rightarrow> f x)"

section \<open>Environment and arrays\<close>

text \<open>
  What the code reads from outside the file: pandas' \<^verbatim>\<open>dt.dayofyear\<close> of a timestamp,
  the integer that the platform's conversion gives when a NaN or an infinity is cast to
  \<^verbatim>\<open>int16\<close> (numpy leaves it unspecified; common hardware gives 0), and the release
  number of the installed xarray.
\<close>

record env =
  dayofyear :: "int \<Rightarrow> int"
  nonfinite_int16 :: int
  xr_version :: "nat \<times> nat \<times> nat"

text \<open>
  The input \<^verbatim>\<open>DataArray\<close>: the \<^verbatim>\<open>time\<close> coordinate (\<^verbatim>\<open>datetime64\<close> counts) and,
  for every pixel, its series along \<^verbatim>\<open>time\<close>. The spatial axes are flattened into the
  list of pixels: every operation of the file is elementwise over them, reduces along
  \<^verbatim>\<open>time\<close>, or reduces the whole array. \<open>chunked\<close> is \<^verbatim>\<open>dask.is_dask_collection(da)\<close>.
\<close>

record dataarray =
  time :: "int list"
  pixels :: "fl list list"
  chunked :: bool

text \<open>
  A per-pixel result without the \<^verbatim>\<open>time\<close> dimension. \<open>tcoord\<close> is its \<^verbatim>\<open>time\<close>
  coordinate, present when the array was selected with \<^verbatim>\<open>isel(time=...)\<close> (the timestamp
  picked at each pixel) and absent after a reduction along \<^verbatim>\<open>time\<close>.
\<close>

record 'a grid =
  cells :: "'a list"
  tcoord :: "int list option"

text \<open>
  Arithmetic between two such arrays keeps a \<^verbatim>\<open>time\<close> coordinate that only one of them
  has, or that both have with equal values, and drops it when they disagree.
\<close>

fun merge_coord :: "int list option \<Rightarrow> int list option \<Rightarrow> int list option" where
  "merge_coord None b = b"
| "merge_coord (Some a) None = Some a"
| "merge_coord (Some a) (Some b) = (if a = b then Some a else None)"

definition grid_op :: "('a \<Rightarrow> 'b \<Rightarrow> 'c) \<Rightarrow> 'a grid \<Rightarrow> 'b grid \<Rightarrow> 'c grid" where
  "grid_op f a b = \<lparr>cells = map2 f (cells a) (cells b), tcoord = merge_coord (tcoord a) (tcoord b)\<rparr>"

text \<open>Casts to \<^verbatim>\<open>int16\<close>: an integer wraps; a float is truncated towards zero first.\<close>

definition int16 :: "int \<Rightarrow> int" where
  "int16 i = (i + 32768) mod 65536 - 32768"

definition trunc :: "real \<Rightarrow> int" where
  "trunc a = (if 0 \<le> a then \<lfloor>a\<rfloor> else \<lceil>a\<rceil>)"

definition astype_int16 :: "env \<Rightarrow> fl \<Rightarrow> int" where
  "astype_int16 env x = (case x of Fin a \<Rightarrow> int16 (trunc a) | _ \<Rightarrow> nonfinite_int16 env)"

subsection \<open>Library operations on the time axis\<close>

text \<open>
  \<^verbatim>\<open>da.isel(time=idx)\<close> with one index per pixel: the value and the timestamp at that
  index; a negative index counts from the end, an index out of range raises.
\<close>

definition isel_time :: "int list \<Rightarrow> fl list list \<Rightarrow> int list \<Rightarrow> error + fl grid" where
  "isel_time ts vals idx =
     (let n = int (length ts)
      in if list_all (\<lambda>i. - n \<le> i \<and> i < n) idx
         then Inr \<lparr>cells = map2 (\<lambda>s i. s ! nat (i mod n)) vals idx,
                   tcoord = Some (map (\<lambda>i. ts ! nat (i mod n)) idx)\<rparr>
         else Inl IndexError)"

text \<open>
  \<^verbatim>\<open>numpy.gradient\<close> of one series over the coordinate \<open>x\<close>, \<^verbatim>\<open>edge_order=1\<close>:
  one-sided differences at both ends; inside, the central difference when the spacing is
  constant and the three-point formula for uneven spacing otherwise. A coordinate of
  another length raises \<^verbatim>\<open>ValueError\<close>; with fewer than two points the test for constant
  spacing reads the first of no differences and raises \<^verbatim>\<open>IndexError\<close>.
\<close>

definition np_diff :: "int list \<Rightarrow> fl list" where
  "np_diff x = map2 (\<lambda>a b. Fin (of_int (b - a))) x (tl x)"

definition grad_inner :: "bool \<Rightarrow> fl list \<Rightarrow> fl list \<Rightarrow> nat \<Rightarrow> fl" where
  "grad_inner uniform dx f i =
     (if uniform
      then fl_div (fl_sub (f ! (i + 1)) (f ! (i - 1))) (fl_mul (Fin 2) (hd dx))
      else (let dx1 = dx ! (i - 1); dx2 = dx ! i;
                a = fl_div (fl_neg dx2) (fl_mul dx1 (fl_add dx1 dx2));
                b = fl_div (fl_sub dx2 dx1) (fl_mul dx1 dx2);
                c = fl_div dx1 (fl_mul dx2 (fl_add dx1 dx2))
            in fl_add (fl_add (fl_mul a (f ! (i - 1))) (fl_mul b (f ! i))) (fl_mul c (f ! (i + 1)))))"

definition np_gradient :: "int list \<Rightarrow> fl list \<Rightarrow> error + fl list" where
  "np_gradient x f =
     (let n = length f; dx = np_diff x
      in if length x \<noteq> n then Inl ValueError
         else if n < 2 then Inl IndexError
         else (let uniform = list_all (\<lambda>d. d = hd dx) dx
               in Inr ([fl_div (fl_sub (f ! 1) (f ! 0)) (hd dx)]
                       @ map (grad_inner uniform dx f) [1..<n - 1]
                       @ [fl_div (fl_sub (f ! (n - 1)) (f ! (n - 2))) (last dx)])))"

text \<open>\<^verbatim>\<open>da.differentiate("time")\<close>: the gradient of every pixel's series.\<close>

definition differentiate :: "int list \<Rightarrow> fl list list \<Rightarrow> error + fl list list" where
  "differentiate ts vals =
     (if length ts < 2 then Inl IndexError else mapM (np_gradient ts) vals)"

text \<open>\<^verbatim>\<open>da.min()\<close> and \<^verbatim>\<open>da.max()\<close> over the whole array, NaN skipped.\<close>

definition global_min :: "fl list list \<Rightarrow> error + fl" where
  "global_min vals = (if concat vals = [] then Inl ValueError else Inr (nanmin (concat vals)))"

definition global_max :: "fl list list \<Rightarrow> error + fl" where
  "global_max vals = (if concat vals = [] then Inl ValueError else Inr (nanmax (concat vals)))"

definition fillna :: "fl \<Rightarrow> fl list list \<Rightarrow> fl list list" where
  "fillna v vals = map (map (\<lambda>x. if isnan x then v else x)) vals"

section \<open>The extremum locator\<close>

text \<open>
  \<^verbatim>\<open>allNaN_arg(da, dim, stat)\<close>. The axis is \<^verbatim>\<open>"time"\<close> at every call of the file, so
  the model reduces along the series of each pixel. The result holds, per pixel, the index
  as a float, NaN where the mask is set (\<^verbatim>\<open>.where(~mask)\<close>); \<open>None\<close> is Python's
  \<^verbatim>\<open>None\<close>, returned for any other \<open>stat\<close>.
\<close>

definition allNaN_arg :: "fl list list \<Rightarrow> string \<Rightarrow> error + fl list option" where
  "allNaN_arg da stat =
     (let mask = map (list_all isnan) da
      in if stat = ''max'' then
           bnd (global_min da) (\<lambda>m.
           bnd (mapM nanargmax (fillna (fl_sub m (Fin 1)) da)) (\<lambda>y.
           Inr (Some (map2 (\<lambda>i b. if \<not> b then Fin (of_nat i) else NaN) y mask))))
         else if stat = ''min'' then
           bnd (global_max da) (\<lambda>m.
           bnd (mapM nanargmin (fillna (fl_add m (Fin 1)) da)) (\<lambda>y.
           Inr (Some (map2 (\<lambda>i b. if \<not> b then Fin (of_nat i) else NaN) y mask))))
         else Inr None)"

section \<open>Season landmark extractors\<close>

text \<open>\<^verbatim>\<open>_vpos\<close>, \<^verbatim>\<open>_trough\<close>: \<^verbatim>\<open>da.max("time")\<close>, \<^verbatim>\<open>da.min("time")\<close>; an empty axis raises.\<close>

definition vpos :: "dataarray \<Rightarrow> error + fl grid" where
  "vpos da = (if time da = [] then Inl ValueError
              else Inr \<lparr>cells = map nanmax (pixels da), tcoord = None\<rparr>)"

definition trough :: "dataarray \<Rightarrow> error + fl grid" where
  "trough da = (if time da = [] then Inl ValueError
                else Inr \<lparr>cells = map nanmin (pixels da), tcoord = None\<rparr>)"

text \<open>\<^verbatim>\<open>x.time.dt.dayofyear\<close>: the day of year of the timestamp selected at each pixel.\<close>

definition time_dayofyear :: "env \<Rightarrow> 'a grid \<Rightarrow> error + int grid" where
  "time_dayofyear env g =
     (case tcoord g of None \<Rightarrow> Inl AttributeError
      | Some ts \<Rightarrow> Inr \<lparr>cells = map (dayofyear env) ts, tcoord = Some ts\<rparr>)"

text \<open>\<^verbatim>\<open>_pos\<close>: \<^verbatim>\<open>da.isel(time=da.argmax("time")).time.dt.dayofyear\<close>.\<close>

definition pos :: "env \<Rightarrow> dataarray \<Rightarrow> error + int grid" where
  "pos env da =
     bnd (mapM nanargmax (pixels da)) (\<lambda>idx.
     bnd (isel_time (time da) (pixels da) (map int idx)) (\<lambda>sel.
     time_dayofyear env sel))"

text \<open>\<^verbatim>\<open>_aos\<close>.\<close>

definition aos :: "fl grid \<Rightarrow> fl grid \<Rightarrow> fl grid" where
  "aos vp tr = grid_op fl_sub vp tr"

text \<open>\<^verbatim>\<open>da.where(da.time < pos.time)\<close> and \<^verbatim>\<open>da.where(da.time > pos.time)\<close>.\<close>

definition where_time :: "(int \<Rightarrow> int \<Rightarrow> bool) \<Rightarrow> dataarray \<Rightarrow> int list \<Rightarrow> fl list list" where
  "where_time cmp da pt =
     map2 (\<lambda>s p. map2 (\<lambda>t v. if cmp t p then v else NaN) (time da) s) (pixels da) pt"

text \<open>The index array of \<^verbatim>\<open>allNaN_arg\<close> after \<^verbatim>\<open>.astype("int16")\<close>.\<close>

definition astype_idx :: "env \<Rightarrow> fl list option \<Rightarrow> error + int list" where
  "astype_idx env r =
     (case r of None \<Rightarrow> Inl AttributeError | Some y \<Rightarrow> Inr (map (astype_int16 env) y))"

text \<open>
  The two \<^verbatim>\<open>if method == ...\<close> blocks shared by \<^verbatim>\<open>_vsos\<close> and \<^verbatim>\<open>_veos\<close>; \<open>m1\<close> is
  \<^verbatim>\<open>'first'\<close> or \<^verbatim>\<open>'last'\<close>. With any other method \<^verbatim>\<open>idx\<close> is never bound and the
  \<^verbatim>\<open>return\<close> raises.
\<close>

definition select_idx :: "env \<Rightarrow> string \<Rightarrow> string \<Rightarrow> fl list list \<Rightarrow> error + int list" where
  "select_idx env m1 method distance =
     (if method = m1 then bnd (allNaN_arg distance ''min'') (astype_idx env)
      else if method = ''median''
      then bnd (allNaN_arg (map (map fl_abs) distance) ''min'') (astype_idx env)
      else Inl UnboundLocalError)"

definition distance_to_median :: "fl list list \<Rightarrow> fl list list" where
  "distance_to_median vals = map (\<lambda>s. map (\<lambda>v. fl_sub v (nanmedian s)) s) vals"

text \<open>\<^verbatim>\<open>_vsos\<close>.\<close>

definition pos_greenup :: "dataarray \<Rightarrow> int list \<Rightarrow> error + fl list list" where
  "pos_greenup da pt =
     (let greenup = where_time (\<lambda>t p. t < p) da pt
      in bnd (differentiate (time da) greenup) (\<lambda>green_deriv.
         let pos_green_deriv = map (map (\<lambda>d. if fl_lt (Fin 0) d then d else NaN)) green_deriv
         in Inr (map2 (map2 (\<lambda>v d. if \<not> isnan d then v else NaN)) greenup pos_green_deriv)))"

definition vsos :: "env \<Rightarrow> dataarray \<Rightarrow> int grid \<Rightarrow> string \<Rightarrow> error + fl grid" where
  "vsos env da p method_sos =
     (case tcoord p of None \<Rightarrow> Inl AttributeError
      | Some pt \<Rightarrow>
          bnd (pos_greenup da pt) (\<lambda>pg.
          bnd (select_idx env ''first'' method_sos (distance_to_median pg)) (\<lambda>idx.
          isel_time (time da) pg idx)))"

text \<open>\<^verbatim>\<open>_sos\<close>, \<^verbatim>\<open>_eos\<close>.\<close>

definition sos :: "env \<Rightarrow> fl grid \<Rightarrow> error + int grid" where
  "sos env vs = time_dayofyear env vs"

definition eos :: "env \<Rightarrow> fl grid \<Rightarrow> error + int grid" where
  "eos env ve = time_dayofyear env ve"

text \<open>
  \<^verbatim>\<open>_veos\<close>. The condition of the first \<^verbatim>\<open>where\<close> is \<^verbatim>\<open>~isnan(senesce_deriv < 0)\<close>, the
  NaN test of a boolean array; the second \<^verbatim>\<open>where\<close> takes the float array
  \<^verbatim>\<open>neg_senesce_deriv\<close> itself as its condition.
\<close>

definition neg_senesce :: "dataarray \<Rightarrow> int list \<Rightarrow> error + fl list list" where
  "neg_senesce da pt =
     (let senesce = where_time (\<lambda>t p. t > p) da pt
      in bnd (differentiate (time da) senesce) (\<lambda>senesce_deriv.
         let neg_senesce_deriv =
               map (map (\<lambda>d. if \<not> isnan_bool (fl_lt d (Fin 0)) then d else NaN)) senesce_deriv
         in Inr (map2 (map2 (\<lambda>v d. if truthy d then v else NaN)) senesce neg_senesce_deriv)))"

definition veos :: "env \<Rightarrow> dataarray \<Rightarrow> int grid \<Rightarrow> string \<Rightarrow> error + fl grid" where
  "veos env da p method_eos =
     (case tcoord p of None \<Rightarrow> Inl AttributeError
      | Some pt \<Rightarrow>
          bnd (neg_senesce da pt) (\<lambda>ns.
          bnd (select_idx env ''last'' method_eos (distance_to_median ns)) (\<lambda>idx.
          isel_time (time da) ns idx)))"

text \<open>
  \<^verbatim>\<open>_los\<close>. \<^verbatim>\<open>eos.where(los < 0)\<close> turns the integers into floats, so the result is a
  float array.
\<close>

definition where_neg :: "int grid \<Rightarrow> int grid \<Rightarrow> fl grid" where
  "where_neg g l = grid_op (\<lambda>v d. if d < 0 then Fin (of_int v) else NaN) g l"

definition los :: "env \<Rightarrow> dataarray \<Rightarrow> int grid \<Rightarrow> int grid \<Rightarrow> error + fl grid" where
  "los env da e s =
     (let l = grid_op (\<lambda>a b. a - b) e s
      in if time da = [] then Inl IndexError
         else (let lastdoy = Fin (of_int (dayofyear env (last (time da))));
                   wrapped = grid_op fl_sub (where_neg e l) (where_neg s l)
               in Inr (grid_op (\<lambda>d w. if d \<ge> 0 then Fin (of_int d) else fl_add lastdoy w)
                         l wrapped)))"

text \<open>\<^verbatim>\<open>_rog\<close>, \<^verbatim>\<open>_ros\<close>: a float array divided by an integer array.\<close>

definition div_int :: "fl \<Rightarrow> int \<Rightarrow> fl" where
  "div_int x d = fl_div x (Fin (of_int d))"

definition rog :: "fl grid \<Rightarrow> fl grid \<Rightarrow> int grid \<Rightarrow> int grid \<Rightarrow> fl grid" where
  "rog vp vs p s = grid_op div_int (grid_op fl_sub vp vs) (grid_op (\<lambda>a b. a - b) p s)"

definition ros :: "fl grid \<Rightarrow> fl grid \<Rightarrow> int grid \<Rightarrow> int grid \<Rightarrow> fl grid" where
  "ros ve vp e p = grid_op div_int (grid_op fl_sub ve vp) (grid_op (\<lambda>a b. a - b) e p)"

section \<open>The phenology orchestrator\<close>

text \<open>
  A variable of the output: \<^verbatim>\<open>int16\<close> or \<^verbatim>\<open>float32\<close> values per pixel (rounding to
  single precision is not modelled), with the \<^verbatim>\<open>time\<close> coordinate it carries, if any.
\<close>

datatype vals = Int16 "int list" | Float32 "fl list"

type_synonym variable = "vals \<times> int list option"

definition int_astype_int16 :: "int grid \<Rightarrow> variable" where
  "int_astype_int16 g = (Int16 (map int16 (cells g)), tcoord g)"

definition fl_astype_int16 :: "env \<Rightarrow> fl grid \<Rightarrow> variable" where
  "fl_astype_int16 env g = (Int16 (map (astype_int16 env) (cells g)), tcoord g)"

definition astype_float32 :: "fl grid \<Rightarrow> variable" where
  "astype_float32 g = (Float32 (cells g), tcoord g)"

text \<open>
  The statements from \<^verbatim>\<open>vpos = _vpos(da)\<close> to the end of \<^verbatim>\<open>stats_dict\<close>: all eleven
  landmarks, in the order of the source, then the dictionary in its own order.
\<close>

definition stats_dict :: "env \<Rightarrow> dataarray \<Rightarrow> string \<Rightarrow> string \<Rightarrow> error + (string \<times> variable) list" where
  "stats_dict env da method_sos method_eos =
     bnd (vpos da) (\<lambda>vp.
     bnd (pos env da) (\<lambda>p.
     bnd (trough da) (\<lambda>tr.
     let ao = aos vp tr in
     bnd (vsos env da p method_sos) (\<lambda>vs.
     bnd (sos env vs) (\<lambda>s.
     bnd (veos env da p method_eos) (\<lambda>ve.
     bnd (eos env ve) (\<lambda>e.
     bnd (los env da e s) (\<lambda>l.
     let rg = rog vp vs p s;
         rs = ros ve vp e p
     in Inr [(''SOS'', int_astype_int16 s),
             (''EOS'', int_astype_int16 e),
             (''vSOS'', astype_float32 vs),
             (''vPOS'', astype_float32 vp),
             (''Trough'', astype_float32 tr),
             (''POS'', int_astype_int16 p),
             (''vEOS'', astype_float32 ve),
             (''LOS'', fl_astype_int16 env l),
             (''AOS'', astype_float32 ao),
             (''ROG'', astype_float32 rg),
             (''ROS'', astype_float32 rs)]))))))))"

text \<open>
  The \<^verbatim>\<open>Dataset\<close> under construction: its data variables in insertion order and its
  \<^verbatim>\<open>time\<close> coordinate. \<^verbatim>\<open>to_dataset\<close> takes the coordinate of the first variable;
  \<^verbatim>\<open>ds[stat] = ...\<close> adds the coordinate of the new variable when the dataset has none
  and keeps its own otherwise.
\<close>

record dataset =
  data_vars :: "(string \<times> vals) list"
  time_coord :: "int list option"

definition getitem :: "(string \<times> 'v) list \<Rightarrow> string \<Rightarrow> error + 'v" where
  "getitem d k = (case map_of d k of None \<Rightarrow> Inl KeyError | Some v \<Rightarrow> Inr v)"

definition to_dataset :: "string \<Rightarrow> variable \<Rightarrow> dataset" where
  "to_dataset name v = \<lparr>data_vars = [(name, fst v)], time_coord = snd v\<rparr>"

definition setitem :: "dataset \<Rightarrow> string \<Rightarrow> variable \<Rightarrow> dataset" where
  "setitem ds name v =
     \<lparr>data_vars = AList.update name (fst v) (data_vars ds),
      time_coord = (case time_coord ds of None \<Rightarrow> snd v | Some c \<Rightarrow> Some c)\<rparr>"

text \<open>The loop \<^verbatim>\<open>for stat in stats[1:]\<close>.\<close>

fun add_stats :: "(string \<times> variable) list \<Rightarrow> string list \<Rightarrow> dataset \<Rightarrow> error + dataset" where
  "add_stats d [] ds = Inr ds"
| "add_stats d (stat # rest) ds =
     bnd (getitem d stat) (\<lambda>v. add_stats d rest (setitem ds stat v))"

definition assemble :: "(string \<times> variable) list \<Rightarrow> string list \<Rightarrow> error + dataset" where
  "assemble d stats =
     (case stats of [] \<Rightarrow> Inl IndexError
      | first # rest \<Rightarrow>
          bnd (getitem d first) (\<lambda>v. add_stats d rest (to_dataset first v)))"

text \<open>
  \<^verbatim>\<open>ds.drop("time")\<close>: dropping a name that the dataset does not have raises
  \<^verbatim>\<open>ValueError\<close> (the default \<^verbatim>\<open>errors="raise"\<close>).
\<close>

definition drop_time :: "dataset \<Rightarrow> error + (string \<times> vals) list" where
  "drop_time ds =
     (case time_coord ds of None \<Rightarrow> Inl ValueError | Some c \<Rightarrow> Inr (data_vars ds))"

subsection \<open>Deferred execution\<close>

datatype dtype = np_int16 | np_float32

definition stats_dtype :: "(string \<times> dtype) list" where
  "stats_dtype =
     [(''SOS'', np_int16), (''POS'', np_int16), (''EOS'', np_int16),
      (''Trough'', np_float32), (''vSOS'', np_float32), (''vPOS'', np_float32),
      (''vEOS'', np_float32), (''LOS'', np_int16), (''AOS'', np_float32),
      (''ROG'', np_float32), (''ROS'', np_float32)]"

text \<open>
  The \<^verbatim>\<open>stats\<close> argument: a list of names, or a single name that is put into a list.
  \<^verbatim>\<open>var_name in stats\<close> is membership on a list and the substring test on a string.
\<close>

datatype stats_arg = StatList "string list" | StatName string

fun stat_in :: "string \<Rightarrow> stats_arg \<Rightarrow> bool" where
  "stat_in n (StatList l) = (n \<in> set l)"
| "stat_in n (StatName s) = sublist n s"

fun as_list :: "stats_arg \<Rightarrow> string list" where
  "as_list (StatList l) = l"
| "as_list (StatName s) = [s]"

text \<open>
  What a call returns: the computed collection (name and values of every field), or, for a
  chunked input, the deferred collection that \<^verbatim>\<open>map_blocks\<close> builds from the template and
  the keyword arguments it will pass to \<^verbatim>\<open>xr_phenology\<close> on every block.
\<close>

datatype outcome =
  Computed "(string \<times> vals) list"
| Deferred "(string \<times> dtype) list" stats_arg string string

definition version_lt :: "nat \<times> nat \<times> nat \<Rightarrow> nat \<times> nat \<times> nat \<Rightarrow> bool" where
  "version_lt v w =
     (case (v, w) of ((a, b, c), (x, y, z)) \<Rightarrow> a < x \<or> (a = x \<and> (b < y \<or> (b = y \<and> c < z))))"

text \<open>\<^verbatim>\<open>da.where(~mask, other=0)\<close> with \<^verbatim>\<open>mask = da.isnull().all("time")\<close>.\<close>

definition zero_fill :: "dataarray \<Rightarrow> dataarray" where
  "zero_fill da =
     da\<lparr>pixels := map (\<lambda>s. if \<not> list_all isnan s then s else map (\<lambda>v. Fin 0) s) (pixels da)\<rparr>"

text \<open>
  \<^verbatim>\<open>xr_phenology\<close>. \<open>verbose\<close> only prints; the spatial reference copied under
  \<^verbatim>\<open>try\<close>/\<^verbatim>\<open>except\<close> is not part of the model.
\<close>

definition xr_phenology :: "env \<Rightarrow> dataarray \<Rightarrow> stats_arg \<Rightarrow> string \<Rightarrow> string \<Rightarrow> bool \<Rightarrow> error + outcome" where
  "xr_phenology env da stats method_sos method_eos verbose =
     (if chunked da then
        (if version_lt (xr_version env) (0, 16, 0) then Inl TypeError
         else if time da = [] then Inl IndexError
         else Inr (Deferred (filter (\<lambda>(var_name, var_dtype). stat_in var_name stats) stats_dtype)
                     stats method_sos method_eos))
      else if method_sos \<notin> set [''median'', ''first''] then Inl ValueError
      else if method_eos \<notin> set [''median'', ''last''] then Inl ValueError
      else
        bnd (stats_dict env (zero_fill da) method_sos method_eos) (\<lambda>d.
        bnd (assemble d (as_list stats)) (\<lambda>ds.
        bnd (drop_time ds) (\<lambda>r. Inr (Computed r)))))"

section \<open>A concrete environment\<close>

text \<open>
  Timestamps are \<^verbatim>\<open>datetime64[ns]\<close>: nanoseconds since 1970-01-01. \<open>day d\<close> is midnight
  \<open>d\<close> days after that date. \<open>pandas_dayofyear\<close> is the day of the year in the proleptic
  Gregorian calendar, counted from 1, computed from the day number by the usual
  era/year-of-era decomposition with years starting in March.
\<close>

definition day :: "int \<Rightarrow> int" where
  "day d = d * 86400000000000"

definition is_leap :: "int \<Rightarrow> bool" where
  "is_leap y = (y mod 4 = 0 \<and> (y mod 100 \<noteq> 0 \<or> y mod 400 = 0))"

definition civil_dayofyear :: "int \<Rightarrow> int" where
  "civil_dayofyear d =
     (let z = d + 719468;
          era = z div 146097;
          doe = z mod 146097;
          yoe = (doe - doe div 1460 + doe div 36524 - doe div 146096) div 365;
          doy = doe - (365 * yoe + yoe div 4 - yoe div 100)
      in if doy < 306
         then doy + 60 + (if is_leap (yoe + era * 400) then 1 else 0)
         else doy - 305)"

definition pandas_dayofyear :: "int \<Rightarrow> int" where
  "pandas_dayofyear t = civil_dayofyear (t div 86400000000000)"

definition env0 :: env where
  "env0 = \<lparr>dayofyear = pandas_dayofyear, nonfinite_int16 = 0, xr_version = (0, 16, 0)\<rparr>"

section \<open>Example inputs\<close>

definition stats_all :: "string list" where
  "stats_all = [''SOS'', ''POS'', ''EOS'', ''Trough'', ''vSOS'', ''vPOS'', ''vEOS'', ''LOS'',
                ''AOS'', ''ROG'', ''ROS'']"

text \<open>One pixel, the first of six months of 1970.\<close>

definition series_example :: "fl list" where
  "series_example = [Fin (1 / 10), Fin (2 / 10), Fin (3 / 10), Fin (9 / 10), Fin (5 / 10), Fin (2 / 10)]"

definition da_example :: dataarray where
  "da_example = \<lparr>time = map day [0, 31, 59, 90, 120, 151], pixels = [series_example],
                  chunked = False\<rparr>"

text \<open>The same grid as a dask collection, and an environment with xarray 0.15.1.\<close>

definition da_chunked :: dataarray where
  "da_chunked = da_example\<lparr>chunked := True\<rparr>"

definition env_old :: env where
  "env_old = env0\<lparr>xr_version := (0, 15, 1)\<rparr>"


text \<open>Two pixels: the example series and a series that only falls.\<close>

definition da_falling :: dataarray where
  "da_falling = da_example\<lparr>pixels := [series_example,
       [Fin (9 / 10), Fin (7 / 10), Fin (5 / 10), Fin (4 / 10), Fin (3 / 10), Fin (2 / 10)]]\<rparr>"

text \<open>One pixel every ten days; after the peak the series falls, rises, dips and rises.\<close>

definition da_regrowth :: dataarray where
  "da_regrowth = \<lparr>time = map day [0, 10, 20, 30, 40, 50, 60, 70, 80],
                   pixels = [[Fin 1, Fin 2, Fin 3, Fin 9, Fin 5, Fin 1, Fin 3, Fin (1 / 2), Fin 4]],
                   chunked = False\<rparr>"

text \<open>One pixel every fifty days from 19 July 1970 to 26 March 1971.\<close>

definition da_crossing :: dataarray where
  "da_crossing = \<lparr>time = map day [199, 249, 299, 349, 399, 449],
                   pixels = [[Fin 2, Fin 1, Fin 3, Fin 9, Fin 0, Fin 5]], chunked = False\<rparr>"

text \<open>One pixel on the first of January of 1970 to 1974.\<close>

definition da_annual :: dataarray where
  "da_annual = \<lparr>time = map day [0, 365, 730, 1096, 1461],
                 pixels = [[Fin 1, Fin 2, Fin 5, Fin 3, Fin 0]], chunked = False\<rparr>"

text \<open>One pixel whose series only falls.\<close>

definition da_only_falling :: dataarray where
  "da_only_falling = da_example\<lparr>pixels := [[Fin (9 / 10), Fin (7 / 10), Fin (5 / 10), Fin (4 / 10),
                                                Fin (3 / 10), Fin (2 / 10)]]\<rparr>"

section \<open>Basic facts\<close>

lemma bnd_Inr: "bnd m f = Inr y \<longleftrightarrow> (\<exists>x. m = Inr x \<and> f x = Inr y)"
  by (cases m) (auto simp: bnd_def)

lemma mapM_Inr:
  "mapM f xs = Inr ys \<Longrightarrow> length ys = length xs \<and> (\<forall>i<length xs. f (xs ! i) = Inr (ys ! i))"
proof (induction xs arbitrary: ys)
  case Nil
  then show ?case by simp
next
  case (Cons x xs)
  from Cons.prems obtain y zs where fx: "f x = Inr y" and r: "mapM f xs = Inr zs" and ys: "ys = y # zs"
    by (auto split: sum.splits)
  from Cons.IH [OF r] have l: "length zs = length xs" and n: "\<forall>i<length xs. f (xs ! i) = Inr (zs ! i)"
    by simp_all
  show ?case
  proof (intro conjI allI impI)
    show "length ys = length (x # xs)" using l ys by simp
  next
    fix i assume "i < length (x # xs)"
    then show "f ((x # xs) ! i) = Inr (ys ! i)"
      using fx n ys by (cases i) simp_all
  qed
qed

lemma getitem_Inr: "getitem d k = Inr v \<longleftrightarrow> map_of d k = Some v"
  by (simp add: getitem_def split: option.splits)

subsection \<open>What the assembled collection holds\<close>

lemma add_stats_map_of:
  "add_stats d rest ds = Inr ds' \<Longrightarrow>
     map_of (data_vars ds') k =
       (if k \<in> set rest then map_option fst (map_of d k) else map_of (data_vars ds) k) \<and>
     (k \<in> set rest \<longrightarrow> map_of d k \<noteq> None)"
proof (induction rest arbitrary: ds)
  case Nil
  then show ?case by simp
next
  case (Cons stat rest)
  from Cons.prems obtain v where g: "map_of d stat = Some v"
    and r: "add_stats d rest (setitem ds stat v) = Inr ds'"
    by (auto simp: bnd_Inr getitem_Inr)
  have u: "map_of (data_vars (setitem ds stat v)) k =
             (if k = stat then Some (fst v) else map_of (data_vars ds) k)"
    by (simp add: setitem_def update_conv')
  from Cons.IH [OF r] u g show ?case
    by auto
qed

lemma assemble_map_of:
  assumes "assemble d stats = Inr ds"
  shows "map_of (data_vars ds) k =
           (if k \<in> set stats then map_option fst (map_of d k) else None) \<and>
         (k \<in> set stats \<longrightarrow> map_of d k \<noteq> None)"
proof (cases stats)
  case Nil
  with assms show ?thesis by (simp add: assemble_def)
next
  case (Cons first rest)
  with assms obtain v where g: "map_of d first = Some v"
    and r: "add_stats d rest (to_dataset first v) = Inr ds"
    by (auto simp: assemble_def bnd_Inr getitem_Inr)
  have u: "map_of (data_vars (to_dataset first v)) k = (if k = first then Some (fst v) else None)"
    by (simp add: to_dataset_def)
  from add_stats_map_of [OF r, of k] u g Cons show ?thesis
    by auto
qed

lemma xr_phenology_Computed:
  assumes "xr_phenology env da stats method_sos method_eos verbose = Inr (Computed r)"
  shows "\<exists>d. stats_dict env (zero_fill da) method_sos method_eos = Inr d \<and>
             (\<forall>k. map_of r k =
                    (if k \<in> set (as_list stats) then map_option fst (map_of d k) else None)) \<and>
             (\<forall>k\<in>set (as_list stats). map_of d k \<noteq> None)"
proof -
  from assms obtain d ds where d: "stats_dict env (zero_fill da) method_sos method_eos = Inr d"
    and a: "assemble d (as_list stats) = Inr ds" and r: "drop_time ds = Inr r"
    by (auto simp: xr_phenology_def bnd_Inr split: if_splits)
  from r have "r = data_vars ds"
    by (simp add: drop_time_def split: option.splits)
  with assemble_map_of [OF a] d show ?thesis
    by blast
qed

lemma stats_dict_keys:
  "stats_dict env da method_sos method_eos = Inr d \<Longrightarrow>
     map fst d = [''SOS'', ''EOS'', ''vSOS'', ''vPOS'', ''Trough'', ''POS'', ''vEOS'', ''LOS'',
                  ''AOS'', ''ROG'', ''ROS'']"
  by (auto simp: stats_dict_def bnd_Inr Let_def)

section \<open>Deferred execution and configuration checks\<close>

text \<open>
  C9. For a chunked input and an xarray older than 0.16.0 the call raises \<^verbatim>\<open>TypeError\<close>
  (the unsupported-environment condition), whatever the data, the requested statistics and
  the policy selectors: nothing is computed and nothing is returned.
\<close>

theorem chunked_old_xarray_raises:
  assumes "chunked da" and "version_lt (xr_version env) (0, 16, 0)"
  shows "xr_phenology env da stats method_sos method_eos verbose = Inl TypeError"
  using assms by (simp add: xr_phenology_def)

theorem chunked_old_xarray_raises_witness:
  "chunked da_chunked \<and> version_lt (xr_version env_old) (0, 16, 0) \<and>
   xr_phenology env_old da_chunked (StatList stats_all) ''first'' ''last'' True = Inl TypeError"
proof -
  have c: "chunked da_chunked"
    by (simp add: da_chunked_def)
  have v: "version_lt (xr_version env_old) (0, 16, 0)"
    by (simp add: env_old_def version_lt_def)
  from chunked_old_xarray_raises [OF c v] c v show ?thesis
    by blast
qed

text \<open>
  C6, as far as the code goes. Take a start-of-season selector other than
  \<^verbatim>\<open>first\<close>/\<^verbatim>\<open>median\<close> or an end-of-season selector other than \<^verbatim>\<open>last\<close>/\<^verbatim>\<open>median\<close>.
  On an input that is not chunked the call raises \<^verbatim>\<open>ValueError\<close> (the
  invalid-configuration condition), whatever the data and the request: the result does not
  depend on the array, so the check comes before any computation, and no collection is
  produced. On a chunked input the call does not look at the selectors: it raises
  \<^verbatim>\<open>TypeError\<close> when xarray is older than 0.16.0, \<^verbatim>\<open>IndexError\<close> when the time axis is
  empty, and otherwise returns the deferred collection, which carries the selectors on
  unchanged.
\<close>

theorem invalid_selector_outcome:
  assumes "method_sos \<notin> {''first'', ''median''} \<or> method_eos \<notin> {''last'', ''median''}"
  shows "xr_phenology env da stats method_sos method_eos verbose =
           (if chunked da
            then (if version_lt (xr_version env) (0, 16, 0) then Inl TypeError
                  else if time da = [] then Inl IndexError
                  else Inr (Deferred
                              (filter (\<lambda>(var_name, var_dtype). stat_in var_name stats) stats_dtype)
                              stats method_sos method_eos))
            else Inl ValueError)"
  using assms by (auto simp: xr_phenology_def)

theorem invalid_selector_outcome_witness:
  "''bogus'' \<notin> {''first'', ''median''} \<and>
   xr_phenology env0 da_example (StatList stats_all) ''bogus'' ''last'' True = Inl ValueError \<and>
   xr_phenology env0 da_chunked (StatList [''vPOS'']) ''bogus'' ''last'' True =
     Inr (Deferred [(''vPOS'', np_float32)] (StatList [''vPOS'']) ''bogus'' ''last'') \<and>
   xr_phenology env_old da_chunked (StatList [''vPOS'']) ''bogus'' ''last'' True = Inl TypeError \<and>
   xr_phenology env0 (da_chunked\<lparr>time := []\<rparr>) (StatList [''vPOS'']) ''bogus'' ''last'' True =
     Inl IndexError"
proof -
  have b: "''bogus'' \<notin> {''first'', ''median''}"
    by simp
  then have m: "''bogus'' \<notin> {''first'', ''median''} \<or> ''last'' \<notin> {''last'', ''median''}"
    by (rule disjI1)
  have e: "xr_phenology env0 da_example (StatList stats_all) ''bogus'' ''last'' True = Inl ValueError"
    using invalid_selector_outcome [OF m, of env0 da_example "StatList stats_all" True]
    by (simp add: da_example_def)
  have c: "xr_phenology env0 da_chunked (StatList [''vPOS'']) ''bogus'' ''last'' True =
             Inr (Deferred [(''vPOS'', np_float32)] (StatList [''vPOS'']) ''bogus'' ''last'')"
    using invalid_selector_outcome [OF m, of env0 da_chunked "StatList [''vPOS'']" True]
    by (simp add: da_chunked_def da_example_def env0_def version_lt_def stats_dtype_def)
  have t: "xr_phenology env_old da_chunked (StatList [''vPOS'']) ''bogus'' ''last'' True = Inl TypeError"
    using invalid_selector_outcome [OF m, of env_old da_chunked "StatList [''vPOS'']" True]
    by (simp add: da_chunked_def env_old_def env0_def version_lt_def)
  have n: "xr_phenology env0 (da_chunked\<lparr>time := []\<rparr>) (StatList [''vPOS'']) ''bogus'' ''last'' True =
             Inl IndexError"
    using invalid_selector_outcome [OF m, of env0 "da_chunked\<lparr>time := []\<rparr>" "StatList [''vPOS'']" True]
    by (simp add: da_chunked_def env0_def version_lt_def)
  from b e c t n show ?thesis
    by blast
qed

text \<open>
  C6 as stated fails on a chunked input: with xarray 0.16.0 the call with the selector
  \<^verbatim>\<open>bogus\<close> does not raise; it returns the deferred collection, which carries the selector
  on to the blocks.
\<close>

theorem chunked_invalid_selector_returns:
  "xr_phenology env0 da_chunked (StatList [''vPOS'', ''SOS'']) ''bogus'' ''last'' True =
     Inr (Deferred [(''SOS'', np_int16), (''vPOS'', np_float32)]
            (StatList [''vPOS'', ''SOS'']) ''bogus'' ''last'')"
  by code_simp

section \<open>The requested subset\<close>

text \<open>
  Two requests on the same input and configuration, every name of the first also in the
  second, both calls returning a collection: every statistic of the first request has the
  same values in both collections, the first collection has exactly the requested names,
  and its values are read from the one dictionary of all eleven landmarks, which is
  computed from the input and the selectors alone.
\<close>

lemma subset_request_same_values:
  assumes "xr_phenology env da A method_sos method_eos verbose = Inr (Computed rA)"
      and "xr_phenology env da B method_sos method_eos verbose' = Inr (Computed rB)"
      and "set (as_list A) \<subseteq> set (as_list B)"
  shows "(\<forall>a\<in>set (as_list A). map_of rA a = map_of rB a \<and> map_of rA a \<noteq> None) \<and>
         fst ` set rA = set (as_list A) \<and>
         (\<exists>d. stats_dict env (zero_fill da) method_sos method_eos = Inr d \<and>
              set (map fst d) = set stats_all \<and>
              (\<forall>a\<in>set (as_list A). map_of rA a = map_option fst (map_of d a)))"
proof -
  from xr_phenology_Computed [OF assms(1)] obtain d
    where d: "stats_dict env (zero_fill da) method_sos method_eos = Inr d"
      and ra: "\<And>k. map_of rA k = (if k \<in> set (as_list A) then map_option fst (map_of d k) else None)"
      and da: "\<And>k. k \<in> set (as_list A) \<Longrightarrow> map_of d k \<noteq> None"
    by blast
  from xr_phenology_Computed [OF assms(2)] d
  have rb: "\<And>k. map_of rB k = (if k \<in> set (as_list B) then map_option fst (map_of d k) else None)"
    by auto
  have eq: "\<forall>a\<in>set (as_list A). map_of rA a = map_of rB a \<and> map_of rA a \<noteq> None"
    using ra rb da assms(3) by auto
  have "dom (map_of rA) = set (as_list A)"
    using ra da by (auto simp: dom_def split: if_splits)
  then have keys: "fst ` set rA = set (as_list A)"
    by (simp add: dom_map_of_conv_image_fst)
  have names: "set (map fst d) = set stats_all"
    unfolding stats_dict_keys [OF d] stats_all_def by auto
  have from_d: "\<forall>a\<in>set (as_list A). map_of rA a = map_option fst (map_of d a)"
    using ra by simp
  from d names from_d
  have "\<exists>d. stats_dict env (zero_fill da) method_sos method_eos = Inr d \<and>
             set (map fst d) = set stats_all \<and>
             (\<forall>a\<in>set (as_list A). map_of rA a = map_option fst (map_of d a))"
    by blast
  with eq keys show ?thesis
    by blast
qed

text \<open>
  A request has to bring a \<^verbatim>\<open>time\<close> coordinate to get past the final
  \<^verbatim>\<open>ds.drop("time")\<close>. Peak value, trough and amplitude have none, so a request made of
  these names alone never returns a collection, whatever the input.
\<close>

lemma add_stats_no_time:
  assumes "add_stats d rest ds = Inr ds'" and "time_coord ds = None"
      and "\<And>k v. k \<in> set rest \<Longrightarrow> map_of d k = Some v \<Longrightarrow> snd v = None"
  shows "time_coord ds' = None"
  using assms
proof (induction rest arbitrary: ds)
  case Nil
  then show ?case by simp
next
  case (Cons stat rest)
  from Cons.prems(1) obtain v where g: "map_of d stat = Some v"
    and r: "add_stats d rest (setitem ds stat v) = Inr ds'"
    by (auto simp: bnd_Inr getitem_Inr)
  from Cons.prems(3) [of stat v] g have "snd v = None"
    by simp
  with Cons.prems(2) have t: "time_coord (setitem ds stat v) = None"
    by (simp add: setitem_def)
  show ?case
  proof (rule Cons.IH [OF r t])
    fix k w assume "k \<in> set rest" and "map_of d k = Some w"
    then show "snd w = None"
      using Cons.prems(3) [of k w] by simp
  qed
qed

lemma assemble_no_time:
  assumes "assemble d stats = Inr ds"
      and "\<And>k v. k \<in> set stats \<Longrightarrow> map_of d k = Some v \<Longrightarrow> snd v = None"
  shows "time_coord ds = None"
proof (cases stats)
  case Nil
  with assms(1) show ?thesis by (simp add: assemble_def)
next
  case (Cons first rest)
  with assms(1) obtain v where g: "map_of d first = Some v"
    and r: "add_stats d rest (to_dataset first v) = Inr ds"
    by (auto simp: assemble_def bnd_Inr getitem_Inr)
  from assms(2) [of first v] g Cons have "snd v = None"
    by simp
  then have t: "time_coord (to_dataset first v) = None"
    by (simp add: to_dataset_def)
  show ?thesis
  proof (rule add_stats_no_time [OF r t])
    fix k w assume "k \<in> set rest" and "map_of d k = Some w"
    then show "snd w = None"
      using assms(2) [of k w] Cons by simp
  qed
qed

lemma stats_dict_no_time:
  assumes "stats_dict env da method_sos method_eos = Inr d"
      and "k \<in> {''vPOS'', ''Trough'', ''AOS''}" and "map_of d k = Some v"
  shows "snd v = None"
  using assms
  by (auto simp: stats_dict_def bnd_Inr Let_def vpos_def trough_def aos_def grid_op_def
        astype_float32_def split: if_splits)

lemma no_time_request_never_returns:
  assumes "set (as_list stats) \<subseteq> {''vPOS'', ''Trough'', ''AOS''}"
  shows "xr_phenology env da stats method_sos method_eos verbose \<noteq> Inr (Computed r)"
proof
  assume "xr_phenology env da stats method_sos method_eos verbose = Inr (Computed r)"
  then obtain d ds where d: "stats_dict env (zero_fill da) method_sos method_eos = Inr d"
    and a: "assemble d (as_list stats) = Inr ds" and r: "drop_time ds = Inr r"
    by (auto simp: xr_phenology_def bnd_Inr split: if_splits)
  have "time_coord ds = None"
  proof (rule assemble_no_time [OF a])
    fix k v assume "k \<in> set (as_list stats)" and "map_of d k = Some v"
    with assms show "snd v = None"
      using stats_dict_no_time [OF d, of k v] by blast
  qed
  with r show False
    by (simp add: drop_time_def)
qed

text \<open>
  C7, evaluated where it fails. On the example the request for \<^verbatim>\<open>vPOS\<close> alone is
  contained in the request for \<^verbatim>\<open>vPOS\<close> and \<^verbatim>\<open>POS\<close>. The larger request returns the peak
  value 0.9; the smaller one returns no value to compare it with, because the final
  \<^verbatim>\<open>ds.drop("time")\<close> raises.
\<close>

theorem smaller_request_raises:
  "set (as_list (StatList [''vPOS''])) \<subseteq> set (as_list (StatList [''vPOS'', ''POS''])) \<and>
   xr_phenology env0 da_example (StatList [''vPOS'']) ''first'' ''last'' True = Inl ValueError \<and>
   xr_phenology env0 da_example (StatList [''vPOS'', ''POS'']) ''first'' ''last'' True =
     Inr (Computed [(''vPOS'', Float32 [Fin (9 / 10)]), (''POS'', Int16 [91])])"
  by code_simp

text \<open>
  C8, evaluated on its own example. The landmarks are as stated: peak 0.9 on
  day 91, the first of the fourth month, trough 0.1, amplitude 0.8. The request for
  \<^verbatim>\<open>vPOS\<close>, \<^verbatim>\<open>Trough\<close> and \<^verbatim>\<open>AOS\<close> alone does not return them: none of the three
  arrays carries a \<^verbatim>\<open>time\<close> coordinate, and the final \<^verbatim>\<open>ds.drop("time")\<close> raises.
\<close>

theorem example_three_fields_raises:
  "xr_phenology env0 da_example (StatList [''vPOS'', ''Trough'', ''AOS'']) ''first'' ''last'' True
     = Inl ValueError \<and>
   xr_phenology env0 da_example (StatList [''vPOS'', ''Trough'', ''AOS'', ''POS'']) ''first'' ''last'' True
     = Inr (Computed [(''vPOS'', Float32 [Fin (9 / 10)]), (''Trough'', Float32 [Fin (1 / 10)]),
                      (''AOS'', Float32 [Fin (8 / 10)]), (''POS'', Int16 [91])]) \<and>
   map (dayofyear env0) (time da_example) = [1, 32, 60, 91, 121, 152]"
  by code_simp

section \<open>Rates\<close>

text \<open>
  Neither rate guards its division: where the two positions agree the divisor is zero and
  the quotient is NaN or an infinity, never a finite number.
\<close>

lemma div_int_zero: "\<not> is_finite (div_int x 0)"
  by (cases x) (simp_all add: div_int_def is_finite_def signed_inf_def)

lemma rog_zero_denominator:
  assumes "i < length (cells vp)" and "i < length (cells vs)"
      and "i < length (cells p)" and "i < length (cells s)" and "cells p ! i = cells s ! i"
  shows "\<not> is_finite (cells (rog vp vs p s) ! i)"
  using assms by (simp add: rog_def grid_op_def div_int_zero)

lemma ros_zero_denominator:
  assumes "i < length (cells ve)" and "i < length (cells vp)"
      and "i < length (cells e)" and "i < length (cells p)" and "cells e ! i = cells p ! i"
  shows "\<not> is_finite (cells (ros ve vp e p) ! i)"
  using assms by (simp add: ros_def grid_op_def div_int_zero)

text \<open>
  C10. On the yearly series the peak, the start and the end of season all fall on day 1,
  so both rates divide by zero. The call returns, with the green-up rate \<open>+\<infinity>\<close> and the
  senescence rate \<open>-\<infinity>\<close>.
\<close>

theorem zero_denominator_rates_infinite:
  "xr_phenology env0 da_annual
       (StatList [''SOS'', ''POS'', ''EOS'', ''vSOS'', ''vPOS'', ''vEOS'', ''ROG'', ''ROS''])
       ''first'' ''last'' True
     = Inr (Computed [(''SOS'', Int16 [1]), (''POS'', Int16 [1]), (''EOS'', Int16 [1]),
                      (''vSOS'', Float32 [Fin 1]), (''vPOS'', Float32 [Fin 5]),
                      (''vEOS'', Float32 [Fin 0]),
                      (''ROG'', Float32 [PInf]), (''ROS'', Float32 [NInf])])"
  by code_simp

section \<open>End of season\<close>

text \<open>
  C3, evaluated on a series that grows again after the peak. The derivative of the
  senescing side is negative at indices 5 and 6 and positive at 7 and 8, yet every sample
  after the peak is kept as a candidate, and the end of season is the sample of index 7
  (value 0.5, day 71), whose derivative is positive.
\<close>

theorem regrowth_sample_selected:
  "differentiate (time da_regrowth) (where_time (\<lambda>t p. t > p) da_regrowth [day 30]) =
     Inr [[NaN, NaN, NaN, NaN, NaN, Fin (- (1 / 864000000000000)),
           Fin (- (1 / 3456000000000000)), Fin (1 / 1728000000000000),
           Fin (7 / 1728000000000000)]] \<and>
   neg_senesce da_regrowth [day 30] =
     Inr [[NaN, NaN, NaN, NaN, Fin 5, Fin 1, Fin 3, Fin (1 / 2), Fin 4]] \<and>
   xr_phenology env0 da_regrowth (StatList [''POS'', ''vEOS'', ''EOS'']) ''first'' ''last'' True =
     Inr (Computed [(''POS'', Int16 [31]), (''vEOS'', Float32 [Fin (1 / 2)]), (''EOS'', Int16 [71])]) \<and>
   map (dayofyear env0) (time da_regrowth) = [1, 11, 21, 31, 41, 51, 61, 71, 81]"
  by code_simp

section \<open>The extremum locator on arrays without a valid entry\<close>

text \<open>
  C2, evaluated where it fails. When some entry of the array is valid, a pixel without a
  valid entry gets NaN. When no entry of the whole array is valid, the fill
  value is NaN itself and \<^verbatim>\<open>argmin\<close>/\<^verbatim>\<open>argmax\<close> raise. The pipeline reaches this on a
  grid whose only pixel never rises before its peak.
\<close>

theorem all_nan_grid_raises:
  "allNaN_arg [[NaN, NaN, NaN]] ''min'' = Inl ValueError \<and>
   allNaN_arg [[NaN, NaN, NaN]] ''max'' = Inl ValueError \<and>
   allNaN_arg [[NaN, NaN, NaN], [Fin 3, Fin 1, NaN]] ''min'' = Inr (Some [NaN, Fin 1]) \<and>
   allNaN_arg [[NaN, NaN, NaN], [Fin 3, Fin 1, NaN]] ''max'' = Inr (Some [NaN, Fin 0]) \<and>
   pos_greenup da_only_falling [day 0] = Inr [[NaN, NaN, NaN, NaN, NaN, NaN]] \<and>
   xr_phenology env0 da_only_falling (StatList stats_all) ''first'' ''last'' True = Inl ValueError"
  by code_simp

section \<open>Season length\<close>

text \<open>
  Wherever \<^verbatim>\<open>_los\<close> returns, the length at a pixel is End - Start when End is not before
  Start, and otherwise the day of year of the last timestamp plus End - Start. It is
  negative exactly when End is before Start by more than the day of year of the last
  timestamp.
\<close>

lemma season_length_formula:
  assumes "los env da e s = Inr l" and "i < length (cells e)" and "i < length (cells s)"
  shows "cells l ! i =
           Fin (of_int (if cells s ! i \<le> cells e ! i then cells e ! i - cells s ! i
                        else dayofyear env (last (time da)) + (cells e ! i - cells s ! i))) \<and>
         (fl_lt (cells l ! i) (Fin 0) \<longleftrightarrow>
            cells e ! i < cells s ! i \<and>
            dayofyear env (last (time da)) < cells s ! i - cells e ! i)"
proof -
  from assms(1) have l: "l = grid_op (\<lambda>d w. if d \<ge> 0 then Fin (of_int d)
                                   else fl_add (Fin (of_int (dayofyear env (last (time da))))) w)
               (grid_op (\<lambda>a b. a - b) e s)
               (grid_op fl_sub (where_neg e (grid_op (\<lambda>a b. a - b) e s))
                               (where_neg s (grid_op (\<lambda>a b. a - b) e s)))"
    by (auto simp: los_def Let_def split: if_splits)
  have v: "cells l ! i =
           Fin (of_int (if cells s ! i \<le> cells e ! i then cells e ! i - cells s ! i
                        else dayofyear env (last (time da)) + (cells e ! i - cells s ! i)))"
    using assms(2,3) unfolding l by (simp add: grid_op_def where_neg_def fl_sub_def)
  show ?thesis
    unfolding v by auto
qed

text \<open>
  C4, evaluated where it fails. A series from July to March has the days of year
  200, 250, 300, 350, 35 and 85. Its start of season is on day 250 and its end on day 35.
  The wrap adds the day of year of the last timestamp, 85, and the reported length is
  85 + (35 - 250) = -130.
\<close>

theorem crossing_season_length_negative:
  "xr_phenology env0 da_crossing (StatList [''SOS'', ''EOS'', ''LOS'']) ''first'' ''last'' True =
     Inr (Computed [(''SOS'', Int16 [250]), (''EOS'', Int16 [35]), (''LOS'', Int16 [- 130])]) \<and>
   map (dayofyear env0) (time da_crossing) = [200, 250, 300, 350, 35, 85] \<and>
   dayofyear env0 (last (time da_crossing)) = 85"
  by code_simp

section \<open>Series of zeros\<close>










section \<open>Start of season without a rising sample\<close>

lemma np_gradient_length:
  "np_gradient x f = Inr g \<Longrightarrow> length g = length f \<and> length f = length x"
  by (auto simp: np_gradient_def Let_def split: if_splits)

lemma differentiate_rows:
  assumes "differentiate ts vals = Inr d"
  shows "length d = length vals \<and>
         (\<forall>i<length vals. length (d ! i) = length ts \<and> length (vals ! i) = length ts)"
proof -
  from assms have m: "mapM (np_gradient ts) vals = Inr d"
    by (simp add: differentiate_def split: if_splits)
  from mapM_Inr [OF m] np_gradient_length show ?thesis
    by metis
qed

lemma pos_greenup_rows:
  assumes "pos_greenup da pt = Inr pg" and "i < length pg"
  shows "length (pg ! i) = length (time da)"
proof -
  let ?g = "where_time (\<lambda>t p. t < p) da pt"
  from assms(1) obtain d where d: "differentiate (time da) ?g = Inr d"
    and pg: "pg = map2 (map2 (\<lambda>v d. if \<not> isnan d then v else NaN)) ?g
                    (map (map (\<lambda>d. if fl_lt (Fin 0) d then d else NaN)) d)"
    by (auto simp: pos_greenup_def Let_def bnd_Inr)
  from differentiate_rows [OF d] have ld: "length d = length ?g"
    and rows: "\<And>j. j < length ?g \<Longrightarrow> length (d ! j) = length (time da) \<and> length (?g ! j) = length (time da)"
    by simp_all
  from assms(2) ld have i: "i < length ?g"
    by (simp add: pg)
  with ld rows [OF i] show ?thesis
    by (simp add: pg)
qed

lemma fl_sub_NaN: "fl_sub NaN y = NaN"
  by (simp add: fl_sub_def)

lemma distance_all_nan:
  assumes "i < length pg" and "list_all isnan (pg ! i)"
  shows "list_all isnan (distance_to_median pg ! i)"
    and "list_all isnan (map (map fl_abs) (distance_to_median pg) ! i)"
  using assms by (auto simp: distance_to_median_def list_all_iff isnan_def fl_sub_NaN)

lemma allNaN_arg_masked:
  assumes "allNaN_arg X ''min'' = Inr (Some y)" and "i < length X" and "list_all isnan (X ! i)"
  shows "length y = length X \<and> y ! i = NaN"
proof -
  from assms(1) obtain m idx where "mapM nanargmin (fillna (fl_add m (Fin 1)) X) = Inr idx"
    and y: "y = map2 (\<lambda>i b. if \<not> b then Fin (of_nat i) else NaN) idx (map (list_all isnan) X)"
    by (auto simp: allNaN_arg_def Let_def bnd_Inr)
  from mapM_Inr [OF this(1)] have "length idx = length X"
    by (simp add: fillna_def)
  with assms(2,3) show ?thesis
    by (simp add: y)
qed

lemma select_idx_masked:
  assumes "select_idx env m1 method (distance_to_median pg) = Inr idx"
      and "i < length pg" and "list_all isnan (pg ! i)"
  shows "length idx = length pg \<and> idx ! i = nonfinite_int16 env"
proof -
  let ?D = "distance_to_median pg"
  have l: "length ?D = length pg" "length (map (map fl_abs) ?D) = length pg"
    by (simp_all add: distance_to_median_def)
  from assms(1) obtain X y where X: "X = ?D \<or> X = map (map fl_abs) ?D"
    and a: "allNaN_arg X ''min'' = Inr (Some y)" and idx: "idx = map (astype_int16 env) y"
    by (auto simp: select_idx_def bnd_Inr astype_idx_def split: if_splits option.splits)
  from X l have lx: "length X = length pg" by auto
  from X distance_all_nan [OF assms(2,3)] have n: "list_all isnan (X ! i)" by auto
  from allNaN_arg_masked [OF a _ n] lx assms(2) have "length y = length pg" and "y ! i = NaN"
    by simp_all
  with assms(2) show ?thesis
    by (simp add: idx astype_int16_def)
qed

text \<open>
  C5, as far as the code goes. Take a pixel at which \<^verbatim>\<open>pos_greenup\<close>, the samples
  before the peak with a positive derivative, holds no value. Whenever \<^verbatim>\<open>_vsos\<close> and
  \<^verbatim>\<open>_sos\<close> return, the start-of-season value at that pixel is NaN; the position is the
  day of year of the timestamp at the index that the cast of NaN to \<^verbatim>\<open>int16\<close> gives (the
  first timestamp when the cast gives 0): an ordinary day of year, not a sentinel.
\<close>

theorem no_rising_sample_start_of_season:
  assumes "tcoord p = Some pt"
      and "pos_greenup da pt = Inr pg"
      and "i < length pg" and "list_all isnan (pg ! i)"
      and "vsos env da p method_sos = Inr vs"
      and "sos env vs = Inr s"
  shows "cells vs ! i = NaN \<and>
         cells s ! i =
           dayofyear env (time da ! nat (nonfinite_int16 env mod int (length (time da))))"
proof -
  let ?n = "int (length (time da))"
  from assms(1,2,5) obtain idx
    where sel: "select_idx env ''first'' method_sos (distance_to_median pg) = Inr idx"
      and isel: "isel_time (time da) pg idx = Inr vs"
    by (auto simp: vsos_def bnd_Inr)
  from select_idx_masked [OF sel assms(3,4)]
  have li: "length idx = length pg" and ii: "idx ! i = nonfinite_int16 env"
    by simp_all
  from isel have bound: "list_all (\<lambda>k. - ?n \<le> k \<and> k < ?n) idx"
    and vc: "cells vs = map2 (\<lambda>s k. s ! nat (k mod ?n)) pg idx"
    and vt: "tcoord vs = Some (map (\<lambda>k. time da ! nat (k mod ?n)) idx)"
    by (auto simp: isel_time_def Let_def split: if_splits)
  from bound li assms(3) have b: "- ?n \<le> idx ! i \<and> idx ! i < ?n"
    by (simp add: list_all_length)
  then have npos: "0 < ?n" by linarith
  then have "0 \<le> idx ! i mod ?n" and "idx ! i mod ?n < ?n"
    by simp_all
  then have inrow: "nat (idx ! i mod ?n) < length (pg ! i)"
    using pos_greenup_rows [OF assms(2,3)] by linarith
  from assms(4) inrow have "(pg ! i) ! nat (idx ! i mod ?n) = NaN"
    by (simp add: list_all_length isnan_def)
  then have v: "cells vs ! i = NaN"
    using li assms(3) by (simp add: vc)
  from assms(6) vt have "cells s = map (dayofyear env) (map (\<lambda>k. time da ! nat (k mod ?n)) idx)"
    by (auto simp: sos_def time_dayofyear_def)
  then have "cells s ! i = dayofyear env (time da ! nat (idx ! i mod ?n))"
    using li assms(3) by simp
  with v ii show ?thesis
    by simp
qed

lemma falling_pos_greenup:
  "pos_greenup da_falling [day 90, day 0] =
     Inr [[Fin (1 / 10), Fin (1 / 5), NaN, NaN, NaN, NaN], [NaN, NaN, NaN, NaN, NaN, NaN]]"
  by code_simp

lemma falling_vsos:
  "vsos env0 da_falling \<lparr>cells = [91, 1], tcoord = Some [day 90, day 0]\<rparr> ''first'' =
     Inr \<lparr>cells = [Fin (1 / 10), NaN], tcoord = Some [day 0, day 0]\<rparr>"
  by code_simp

lemma falling_sos:
  "sos env0 \<lparr>cells = [Fin (1 / 10), NaN], tcoord = Some [day 0, day 0]\<rparr> =
     Inr \<lparr>cells = [1, 1], tcoord = Some [day 0, day 0]\<rparr>"
  by code_simp

theorem no_rising_sample_start_of_season_witness:
  "pos_greenup da_falling [day 90, day 0] =
     Inr [[Fin (1 / 10), Fin (1 / 5), NaN, NaN, NaN, NaN], [NaN, NaN, NaN, NaN, NaN, NaN]] \<and>
   vsos env0 da_falling \<lparr>cells = [91, 1], tcoord = Some [day 90, day 0]\<rparr> ''first'' =
     Inr \<lparr>cells = [Fin (1 / 10), NaN], tcoord = Some [day 0, day 0]\<rparr> \<and>
   sos env0 \<lparr>cells = [Fin (1 / 10), NaN], tcoord = Some [day 0, day 0]\<rparr> =
     Inr \<lparr>cells = [1, 1], tcoord = Some [day 0, day 0]\<rparr> \<and>
   [Fin (1 / 10), NaN] ! 1 = NaN \<and>
   [1, 1] ! 1 = dayofyear env0 (time da_falling ! nat (nonfinite_int16 env0 mod int (length (time da_falling))))"
proof -
  have t: "tcoord \<lparr>cells = [91, 1], tcoord = Some [day 90, day 0]\<rparr> = Some [day 90, day 0]"
    by simp
  have i: "1 < length [[Fin (1 / 10), Fin (1 / 5), NaN, NaN, NaN, NaN], [NaN, NaN, NaN, NaN, NaN, NaN]]"
    by simp
  have n: "list_all isnan ([[Fin (1 / 10), Fin (1 / 5), NaN, NaN, NaN, NaN],
                             [NaN, NaN, NaN, NaN, NaN, NaN]] ! 1)"
    by (simp add: isnan_def)
  from no_rising_sample_start_of_season [OF t falling_pos_greenup i n falling_vsos falling_sos]
  have "[Fin (1 / 10), NaN] ! 1 = NaN \<and>
        [1, 1] ! 1 = dayofyear env0 (time da_falling ! nat (nonfinite_int16 env0 mod int (length (time da_falling))))"
    by simp
  with falling_pos_greenup falling_vsos falling_sos show ?thesis
    by blast
qed

text \<open>
  C5 as stated fails: on the grid with the example series and a series that only falls,
  the second pixel has no rising sample before its peak, its start-of-season value is NaN
  and its start-of-season position is 1, the day of year of the first timestamp.
\<close>

theorem falling_pixel_start_is_first_day:
  "pos_greenup (zero_fill da_falling) [day 90, day 0] =
     Inr [[Fin (1 / 10), Fin (1 / 5), NaN, NaN, NaN, NaN], [NaN, NaN, NaN, NaN, NaN, NaN]] \<and>
   xr_phenology env0 da_falling (StatList [''POS'', ''vSOS'', ''SOS'']) ''first'' ''last'' True =
     Inr (Computed [(''POS'', Int16 [91, 1]), (''vSOS'', Float32 [Fin (1 / 10), NaN]),
                    (''SOS'', Int16 [1, 1])])"
  by code_simp

section \<open>Pixels that were never observed\<close>
























end
